theory Spec2Isabelle
  imports Complex_Main "HOL-Library.Sublist"
begin

section \<open>Values\<close>

text \<open>
  A Python float is modelled by the real number it denotes, by one of the two infinities
  or by \<open>NaN\<close>. Arithmetic on finite floats is exact: the rounding of each result to the
  nearest double and the sign of zero are outside the model. So \<open>1 / 200\<close> is the real
  number 0.005, which rounds to two digits as a tie, to 0, while the double nearest to
  0.005 lies above it and rounds to 0.01. Where the exact result lies beyond the largest
  finite double, the model gives what Python gives: an infinity, or an exception.
\<close>

datatype pyfloat = Fin real | PInf | NInf | NaN

text \<open>
  What an operation can hand back: a float, or (from \<open>**\<close> with a negative base and a
  fractional exponent) a complex number.
\<close>

datatype pyresult = Float pyfloat | Cplx complex

text \<open>
  Exceptions. The classes of \<open>app/exceptions.py\<close> carry the fixed part of their
  message; the others are the built-in exceptions that the modelled code can meet.
\<close>

datatype error =
    OperationError string
  | ValidationError string
  | HistoryError string
  | ZeroDivisionError
  | OverflowError
  | ValueError
  | TypeError
  | AttributeError
  | OSError
  | FileNotFoundError
  | ParserError

section \<open>Operations (app/operations.py)\<close>

datatype operation =
    AddOperation
  | SubtractOperation
  | MultiplyOperation
  | DivideOperation
  | PowerOperation
  | RootOperation
  | ModulusOperation
  | IntDivideOperation
  | PercentOperation
  | AbsDiffOperation

subsection \<open>Float arithmetic as Python evaluates it\<close>

text \<open>
  The largest finite double. A finite result beyond it becomes an infinity, or an
  \<open>OverflowError\<close> where Python raises one (the power operator, \<open>round\<close>).
\<close>

definition DBL_MAX :: real where
  "DBL_MAX = (2 ^ 53 - 1) * 2 ^ 971"

definition finite_or_inf :: "real \<Rightarrow> pyfloat" where
  "finite_or_inf r = (if r > DBL_MAX then PInf else if r < - DBL_MAX then NInf else Fin r)"

fun is_nan :: "pyfloat \<Rightarrow> bool" where
  "is_nan NaN = True"
| "is_nan _ = False"

fun is_inf :: "pyfloat \<Rightarrow> bool" where
  "is_inf PInf = True"
| "is_inf NInf = True"
| "is_inf _ = False"

fun is_neg :: "pyfloat \<Rightarrow> bool" where
  "is_neg (Fin x) = (x < 0)"
| "is_neg NInf = True"
| "is_neg _ = False"

fun fneg :: "pyfloat \<Rightarrow> pyfloat" where
  "fneg (Fin x) = Fin (- x)"
| "fneg PInf = NInf"
| "fneg NInf = PInf"
| "fneg NaN = NaN"

fun fabs :: "pyfloat \<Rightarrow> pyfloat" where
  "fabs (Fin x) = Fin \<bar>x\<bar>"
| "fabs PInf = PInf"
| "fabs NInf = PInf"
| "fabs NaN = NaN"

text \<open>Comparisons: every comparison with \<open>NaN\<close> is false.\<close>

fun feq :: "pyfloat \<Rightarrow> pyfloat \<Rightarrow> bool" where
  "feq (Fin x) (Fin y) = (x = y)"
| "feq PInf PInf = True"
| "feq NInf NInf = True"
| "feq _ _ = False"

fun flt :: "pyfloat \<Rightarrow> pyfloat \<Rightarrow> bool" where
  "flt (Fin x) (Fin y) = (x < y)"
| "flt NInf (Fin y) = True"
| "flt NInf PInf = True"
| "flt (Fin x) PInf = True"
| "flt _ _ = False"

definition fgt :: "pyfloat \<Rightarrow> pyfloat \<Rightarrow> bool" where
  "fgt a b = flt b a"

text \<open>
  Sum, difference and product: an infinity absorbs a finite operand; \<open>inf - inf\<close> and
  \<open>inf * 0\<close> are \<open>NaN\<close>.
\<close>

fun fadd :: "pyfloat \<Rightarrow> pyfloat \<Rightarrow> pyfloat" where
  "fadd (Fin x) (Fin y) = finite_or_inf (x + y)"
| "fadd NaN b = NaN"
| "fadd a NaN = NaN"
| "fadd PInf NInf = NaN"
| "fadd NInf PInf = NaN"
| "fadd PInf b = PInf"
| "fadd NInf b = NInf"
| "fadd a PInf = PInf"
| "fadd a NInf = NInf"

definition fsub :: "pyfloat \<Rightarrow> pyfloat \<Rightarrow> pyfloat" where
  "fsub a b = fadd a (fneg b)"

fun fmul :: "pyfloat \<Rightarrow> pyfloat \<Rightarrow> pyfloat" where
  "fmul (Fin x) (Fin y) = finite_or_inf (x * y)"
| "fmul a b =
     (if is_nan a \<or> is_nan b \<or> a = Fin 0 \<or> b = Fin 0 then NaN
      else if is_neg a \<noteq> is_neg b then NInf else PInf)"

text \<open>
  \<open>a / b\<close>, \<open>a % b\<close> and \<open>a // b\<close> raise \<open>ZeroDivisionError\<close> at a zero divisor.
  \<open>%\<close> takes the sign of the divisor and \<open>//\<close> rounds towards minus infinity; both give
  \<open>NaN\<close> for an infinite dividend, and for an infinite divisor \<open>%\<close> gives the dividend or
  the divisor and \<open>//\<close> gives 0 or -1, by the signs.
\<close>

fun fdiv :: "pyfloat \<Rightarrow> pyfloat \<Rightarrow> pyfloat" where
  "fdiv (Fin x) (Fin y) = finite_or_inf (x / y)"
| "fdiv a b =
     (if is_nan a \<or> is_nan b \<or> (is_inf a \<and> is_inf b) then NaN
      else if is_inf b then Fin 0
      else if is_neg a \<noteq> is_neg b then NInf else PInf)"

definition py_truediv :: "pyfloat \<Rightarrow> pyfloat \<Rightarrow> error + pyfloat" where
  "py_truediv a b = (if feq b (Fin 0) then Inl ZeroDivisionError else Inr (fdiv a b))"

fun fmod :: "pyfloat \<Rightarrow> pyfloat \<Rightarrow> pyfloat" where
  "fmod (Fin x) (Fin y) = Fin (x - y * of_int \<lfloor>x / y\<rfloor>)"
| "fmod (Fin x) PInf = (if x < 0 then PInf else Fin x)"
| "fmod (Fin x) NInf = (if x > 0 then NInf else Fin x)"
| "fmod a b = NaN"

definition py_mod :: "pyfloat \<Rightarrow> pyfloat \<Rightarrow> error + pyfloat" where
  "py_mod a b = (if feq b (Fin 0) then Inl ZeroDivisionError else Inr (fmod a b))"

fun ffloordiv :: "pyfloat \<Rightarrow> pyfloat \<Rightarrow> pyfloat" where
  "ffloordiv (Fin x) (Fin y) = finite_or_inf (of_int \<lfloor>x / y\<rfloor>)"
| "ffloordiv (Fin x) PInf = (if x < 0 then Fin (- 1) else Fin 0)"
| "ffloordiv (Fin x) NInf = (if x > 0 then Fin (- 1) else Fin 0)"
| "ffloordiv a b = NaN"

definition py_floordiv :: "pyfloat \<Rightarrow> pyfloat \<Rightarrow> error + pyfloat" where
  "py_floordiv a b = (if feq b (Fin 0) then Inl ZeroDivisionError else Inr (ffloordiv a b))"

text \<open>\<open>x\<close> is an odd integer (the test that \<open>**\<close> applies to a finite exponent).\<close>

definition is_odd_integer :: "real \<Rightarrow> bool" where
  "is_odd_integer x \<longleftrightarrow> x = of_int \<lfloor>x\<rfloor> \<and> odd \<lfloor>x\<rfloor>"

text \<open>
  \<open>v ** w\<close> on floats, in the order of the interpreter's case analysis: a zero exponent
  gives 1 (also for a \<open>NaN\<close> base); \<open>NaN\<close> propagates, except that \<open>1 ** NaN\<close> is 1; an
  infinite exponent gives 1, infinity or 0 by the size of the base; an infinite base
  gives an infinity or 0 by the sign of the exponent; a zero base with a negative
  exponent raises \<open>ZeroDivisionError\<close>; a negative base with a fractional exponent gives a
  complex number; otherwise the power of the absolute value, negated for a negative base
  and an odd exponent. A result beyond the largest double raises \<open>OverflowError\<close>.
\<close>

definition py_pow :: "pyfloat \<Rightarrow> pyfloat \<Rightarrow> error + pyresult" where
  "py_pow v w =
     (if feq w (Fin 0) then Inr (Float (Fin 1))
      else if is_nan v then Inr (Float NaN)
      else if is_nan w then Inr (Float (if feq v (Fin 1) then Fin 1 else NaN))
      else if is_inf w then
        (if feq (fabs v) (Fin 1) then Inr (Float (Fin 1))
         else if flt (Fin 0) w = fgt (fabs v) (Fin 1) then Inr (Float PInf)
         else Inr (Float (Fin 0)))
      else case (v, w) of
        (Fin iv, Fin iw) \<Rightarrow>
          if iv = 0 then (if iw < 0 then Inl ZeroDivisionError else Inr (Float (Fin 0)))
          else
            let ix = \<bar>iv\<bar> powr iw in
            if ix > DBL_MAX then Inl OverflowError
            else if iv < 0 \<and> iw \<noteq> of_int \<lfloor>iw\<rfloor> then Inr (Cplx (of_real ix * cis (pi * iw)))
            else Inr (Float (Fin (if iv < 0 \<and> odd \<lfloor>iw\<rfloor> then - ix else ix)))
      | (iv, Fin iw) \<Rightarrow>
          if iw > 0 then Inr (Float (if is_odd_integer iw then iv else fabs iv))
          else Inr (Float (Fin 0))
      | (iv, iw) \<Rightarrow> Inr (Float NaN))"

text \<open>
  \<open>round(x, ndigits)\<close>: to the nearest multiple of \<open>10 ** -ndigits\<close>, a tie going to the
  even neighbour; \<open>NaN\<close> and the infinities round to themselves, a value that rounds
  beyond the largest double raises \<open>OverflowError\<close>, and a complex number has no
  \<open>__round__\<close> and raises \<open>TypeError\<close>.
\<close>

definition round_half_even :: "real \<Rightarrow> int" where
  "round_half_even r =
     (let f = \<lfloor>r\<rfloor>; d = r - of_int f
      in if d < 1 / 2 then f else if d > 1 / 2 then f + 1 else if even f then f else f + 1)"

fun py_round :: "pyresult \<Rightarrow> int \<Rightarrow> error + pyfloat" where
  "py_round (Float (Fin x)) n =
     (let r = of_int (round_half_even (x * 10 powi n)) / 10 powi n
      in if \<bar>r\<bar> > DBL_MAX then Inl OverflowError else Inr (Fin r))"
| "py_round (Float x) n = Inr x"
| "py_round (Cplx z) n = Inl TypeError"

subsection \<open>The ten operations\<close>

text \<open>
  \<open>try: return a ** b except (OverflowError, ValueError)\<close>, the handler of
  \<open>PowerOperation\<close> and \<open>RootOperation\<close>: these two exceptions become an
  \<open>OperationError\<close> with the given message, any other passes through.
\<close>

definition catch_overflow_value :: "string \<Rightarrow> error + pyresult \<Rightarrow> error + pyresult" where
  "catch_overflow_value msg r =
     (case r of
        Inl OverflowError \<Rightarrow> Inl (OperationError msg)
      | Inl ValueError \<Rightarrow> Inl (OperationError msg)
      | Inl e \<Rightarrow> Inl e
      | Inr v \<Rightarrow> Inr v)"

definition as_result :: "error + pyfloat \<Rightarrow> error + pyresult" where
  "as_result r = (case r of Inl e \<Rightarrow> Inl e | Inr x \<Rightarrow> Inr (Float x))"

fun execute :: "operation \<Rightarrow> pyfloat \<Rightarrow> pyfloat \<Rightarrow> error + pyresult" where
  "execute AddOperation a b = Inr (Float (fadd a b))"
| "execute SubtractOperation a b = Inr (Float (fsub a b))"
| "execute MultiplyOperation a b = Inr (Float (fmul a b))"
| "execute DivideOperation a b =
     (if feq b (Fin 0) then Inl (OperationError ''Cannot divide by zero'')
      else as_result (py_truediv a b))"
| "execute PowerOperation a b = catch_overflow_value ''Power operation failed'' (py_pow a b)"
| "execute RootOperation a b =
     (if feq b (Fin 0) then Inl (OperationError ''Cannot calculate 0th root'')
      else if flt a (Fin 0) \<and> (case py_mod b (Fin 2) of Inr m \<Rightarrow> feq m (Fin 0) | Inl e \<Rightarrow> False)
        then Inl (OperationError ''Cannot calculate even root of negative number'')
      else case py_truediv (Fin 1) b of
             Inl e \<Rightarrow> Inl e
           | Inr q \<Rightarrow> catch_overflow_value ''Root operation failed'' (py_pow a q))"
| "execute ModulusOperation a b =
     (if feq b (Fin 0) then Inl (OperationError ''Cannot perform modulus with zero divisor'')
      else as_result (py_mod a b))"
| "execute IntDivideOperation a b =
     (if feq b (Fin 0) then Inl (OperationError ''Cannot divide by zero'')
      else as_result (py_floordiv a b))"
| "execute PercentOperation a b =
     (if feq b (Fin 0) then Inl (OperationError ''Cannot calculate percentage with zero denominator'')
      else as_result (case py_truediv a b of Inl e \<Rightarrow> Inl e | Inr q \<Rightarrow> Inr (fmul q (Fin 100))))"
| "execute AbsDiffOperation a b = Inr (Float (fabs (fsub a b)))"

subsection \<open>The factory\<close>

text \<open>\<open>str.lower()\<close> on the ASCII letters; the strings are byte strings.\<close>

definition lower_char :: "char \<Rightarrow> char" where
  "lower_char c =
     (case map_of (zip ''ABCDEFGHIJKLMNOPQRSTUVWXYZ'' ''abcdefghijklmnopqrstuvwxyz'') c of
        Some l \<Rightarrow> l
      | None \<Rightarrow> c)"

definition lower :: "string \<Rightarrow> string" where
  "lower s = map lower_char s"

text \<open>The dictionary \<open>OperationFactory._operations\<close>, in the order it is written.\<close>

definition operations :: "(string \<times> operation) list" where
  "operations =
     [(''add'', AddOperation),
      (''subtract'', SubtractOperation),
      (''multiply'', MultiplyOperation),
      (''divide'', DivideOperation),
      (''power'', PowerOperation),
      (''root'', RootOperation),
      (''modulus'', ModulusOperation),
      (''int_divide'', IntDivideOperation),
      (''percent'', PercentOperation),
      (''abs_diff'', AbsDiffOperation)]"

definition create_operation :: "string \<Rightarrow> error + operation" where
  "create_operation operation_name =
     (case map_of operations (lower operation_name) of
        None \<Rightarrow> Inl (OperationError ''Unknown operation'')
      | Some operation_class \<Rightarrow> Inr operation_class)"

definition get_available_operations :: "string list" where
  "get_available_operations = map fst operations"

section \<open>Calculation (app/calculation.py)\<close>

text \<open>The timestamp is a point in time, counted in microseconds.\<close>

type_synonym timestamp = int

record calculation =
  operation :: operation
  operand_a :: pyfloat
  operand_b :: pyfloat
  result :: "pyresult option"
  timestamp :: timestamp

text \<open>The constructor; \<open>now\<close> is the reading of the clock.\<close>

definition new_calculation :: "operation \<Rightarrow> pyfloat \<Rightarrow> pyfloat \<Rightarrow> timestamp \<Rightarrow> calculation" where
  "new_calculation op a b now =
     \<lparr>operation = op, operand_a = a, operand_b = b, result = None, timestamp = now\<rparr>"

definition calculation_execute :: "calculation \<Rightarrow> (error + pyresult) \<times> calculation" where
  "calculation_execute c =
     (case execute (operation c) (operand_a c) (operand_b c) of
        Inl e \<Rightarrow> (Inl e, c)
      | Inr r \<Rightarrow> (Inr r, c\<lparr>result := Some r\<rparr>))"

fun class_name :: "operation \<Rightarrow> string" where
  "class_name AddOperation = ''AddOperation''"
| "class_name SubtractOperation = ''SubtractOperation''"
| "class_name MultiplyOperation = ''MultiplyOperation''"
| "class_name DivideOperation = ''DivideOperation''"
| "class_name PowerOperation = ''PowerOperation''"
| "class_name RootOperation = ''RootOperation''"
| "class_name ModulusOperation = ''ModulusOperation''"
| "class_name IntDivideOperation = ''IntDivideOperation''"
| "class_name PercentOperation = ''PercentOperation''"
| "class_name AbsDiffOperation = ''AbsDiffOperation''"

text \<open>
  \<open>s.replace(old, new)\<close> for a non-empty \<open>old\<close>: every occurrence, from the left, without
  overlap.
\<close>

fun replace :: "string \<Rightarrow> string \<Rightarrow> string \<Rightarrow> string" where
  "replace old new [] = []"
| "replace old new (c # cs) =
     (if old \<noteq> [] \<and> prefix old (c # cs)
      then new @ replace old new (drop (length old) (c # cs))
      else c # replace old new cs)"

text \<open>The name under which \<open>to_dict\<close> and the logging observer report the operation.\<close>

definition operation_name :: "calculation \<Rightarrow> string" where
  "operation_name c = lower (replace ''Operation'' [] (class_name (operation c)))"

text \<open>The dictionary of \<open>to_dict\<close>; the timestamp stands for its ISO text.\<close>

record calc_dict =
  d_operation :: string
  d_operand_a :: pyfloat
  d_operand_b :: pyfloat
  d_result :: "pyresult option"
  d_timestamp :: timestamp

definition to_dict :: "calculation \<Rightarrow> calc_dict" where
  "to_dict c =
     \<lparr>d_operation = operation_name c,
      d_operand_a = operand_a c,
      d_operand_b = operand_b c,
      d_result = result c,
      d_timestamp = timestamp c\<rparr>"

section \<open>Input validation (app/input\_validators.py)\<close>

text \<open>
  A value handed to \<open>float()\<close>: \<open>Number x\<close> is a float, an int or a numeric string that
  \<open>float()\<close> converts to \<open>x\<close>; \<open>Text s\<close> is a string that it rejects with \<open>ValueError\<close>;
  \<open>NoneValue\<close> is rejected with \<open>TypeError\<close>; \<open>BigInt n\<close> is an int too large for a
  float, for which \<open>float()\<close> raises \<open>OverflowError\<close>. \<open>validate_number\<close> catches the
  first two exceptions and lets the third out.
\<close>

datatype pyvalue = Number pyfloat | Text string | NoneValue | BigInt int

definition validate_number :: "pyvalue \<Rightarrow> string \<Rightarrow> error + pyfloat" where
  "validate_number v param_name =
     (case v of
        Number x \<Rightarrow> Inr x
      | Text s \<Rightarrow> Inl (ValidationError (param_name @ '' must be a number''))
      | NoneValue \<Rightarrow> Inl (ValidationError (param_name @ '' must be a number''))
      | BigInt n \<Rightarrow> Inl OverflowError)"

definition validate_in_range :: "pyfloat \<Rightarrow> pyfloat \<Rightarrow> string \<Rightarrow> error + unit" where
  "validate_in_range v max_value param_name =
     (if fgt (fabs v) max_value
      then Inl (ValidationError (param_name @ '' exceeds maximum allowed value''))
      else Inr ())"

section \<open>History store (app/history.py)\<close>

record calculation_history =
  hist :: "calculation list"
  max_size :: int

definition new_history :: "int \<Rightarrow> calculation_history" where
  "new_history n = \<lparr>hist = [], max_size = n\<rparr>"

text \<open>\<open>append\<close>, then \<open>pop(0)\<close> when the list has grown beyond \<open>max_size\<close>.\<close>

definition add_calculation :: "calculation_history \<Rightarrow> calculation \<Rightarrow> calculation_history" where
  "add_calculation h c =
     (let h1 = h\<lparr>hist := hist h @ [c]\<rparr>
      in if int (length (hist h1)) > max_size h1 then h1\<lparr>hist := tl (hist h1)\<rparr> else h1)"

definition get_history :: "calculation_history \<Rightarrow> calculation list" where
  "get_history h = hist h"

definition get_last_calculation :: "calculation_history \<Rightarrow> calculation option" where
  "get_last_calculation h = (if hist h = [] then None else Some (last (hist h)))"

definition clear_history :: "calculation_history \<Rightarrow> calculation_history" where
  "clear_history h = h\<lparr>hist := []\<rparr>"

definition get_count :: "calculation_history \<Rightarrow> int" where
  "get_count h = int (length (hist h))"

subsection \<open>Files\<close>

text \<open>
  A row of a CSV file as pandas hands it to the loop of \<open>load_from_csv\<close>, each column
  given by what the source's use of the cell yields: \<open>row['operation']\<close> is a text
  (\<open>None\<close>: the cell is no text, so \<open>.lower()\<close> raises); \<open>float(row[...])\<close> returns a
  float (an empty cell is read as \<open>NaN\<close>) or raises (\<open>None\<close>); \<open>pd.to_datetime\<close> returns a
  time or raises (\<open>None\<close>). \<open>None\<close> also stands for a column that the file lacks.
\<close>

record csv_row =
  row_operation :: "string option"
  row_operand_a :: "pyfloat option"
  row_operand_b :: "pyfloat option"
  row_result :: "pyfloat option"
  row_timestamp :: "timestamp option"

text \<open>A file holds a table, or something that \<open>read_csv\<close> rejects.\<close>

datatype csv_file = Table "csv_row list" | Unreadable

record filesystem =
  files :: "string \<rightharpoonup> csv_file"
  unwritable :: "string \<Rightarrow> bool"

definition read_csv :: "filesystem \<Rightarrow> string \<Rightarrow> error + csv_row list" where
  "read_csv fs filepath =
     (case files fs filepath of
        None \<Rightarrow> Inl FileNotFoundError
      | Some Unreadable \<Rightarrow> Inl ParserError
      | Some (Table rows) \<Rightarrow> Inr rows)"

text \<open>
  A result that is a complex number. pandas types a column as a whole: one complex result
  makes the result column complex, and every number in it is then written in a form that
  \<open>float()\<close> rejects when the file is read back.
\<close>

definition is_complex_result :: "calc_dict \<Rightarrow> bool" where
  "is_complex_result d = (case d_result d of Some (Cplx z) \<Rightarrow> True | _ \<Rightarrow> False)"

text \<open>
  The row that \<open>DataFrame(data).to_csv\<close> writes for one dictionary, as it is read back;
  \<open>complex_column\<close> tells whether some result of the table is complex. A missing result
  and a \<open>NaN\<close> are written as an empty cell, which is read as \<open>NaN\<close>. Writing and reading
  a float is taken to give the float back.
\<close>

definition written_row :: "bool \<Rightarrow> calc_dict \<Rightarrow> csv_row" where
  "written_row complex_column d =
     \<lparr>row_operation = Some (d_operation d),
      row_operand_a = Some (d_operand_a d),
      row_operand_b = Some (d_operand_b d),
      row_result = (case d_result d of
                      None \<Rightarrow> Some NaN
                    | Some (Float x) \<Rightarrow>
                        (if is_nan x then Some NaN else if complex_column then None else Some x)
                    | Some (Cplx z) \<Rightarrow> None),
      row_timestamp = Some (d_timestamp d)\<rparr>"

definition to_csv :: "filesystem \<Rightarrow> string \<Rightarrow> calc_dict list \<Rightarrow> (error + unit) \<times> filesystem" where
  "to_csv fs filepath data =
     (if unwritable fs filepath then (Inl OSError, fs)
      else
        let complex_column = list_ex is_complex_result data
        in (Inr (), fs\<lparr>files := (files fs)(filepath \<mapsto> Table (map (written_row complex_column) data))\<rparr>))"

definition save_to_csv :: "calculation_history \<Rightarrow> string \<Rightarrow> filesystem \<Rightarrow> (error + unit) \<times> filesystem" where
  "save_to_csv h filepath fs =
     (if hist h = [] then (Inl (HistoryError ''No history to save''), fs)
      else
        let data = map to_dict (hist h)
        in case to_csv fs filepath data of
             (Inl e, fs1) \<Rightarrow> (Inl (HistoryError ''Failed to save history to CSV''), fs1)
           | (Inr u, fs1) \<Rightarrow> (Inr (), fs1))"

text \<open>The body of the inner \<open>try\<close>: one row becomes a calculation, or an exception is raised.\<close>

definition load_row :: "csv_row \<Rightarrow> error + calculation" where
  "load_row row =
     (case row_operation row of
        None \<Rightarrow> Inl AttributeError
      | Some name \<Rightarrow>
     (case create_operation name of
        Inl e \<Rightarrow> Inl e
      | Inr op \<Rightarrow>
     (case row_operand_a row of
        None \<Rightarrow> Inl ValueError
      | Some a \<Rightarrow>
     (case row_operand_b row of
        None \<Rightarrow> Inl ValueError
      | Some b \<Rightarrow>
     (case row_result row of
        None \<Rightarrow> Inl ValueError
      | Some r \<Rightarrow>
     (case row_timestamp row of
        None \<Rightarrow> Inl ValueError
      | Some t \<Rightarrow>
          Inr \<lparr>operation = op, operand_a = a, operand_b = b,
               result = Some (Float r), timestamp = t\<rparr>))))))"

text \<open>The loop over the rows: a row that raises is skipped.\<close>

fun load_rows :: "calculation list \<Rightarrow> csv_row list \<Rightarrow> calculation list" where
  "load_rows acc [] = acc"
| "load_rows acc (row # rows) =
     (case load_row row of
        Inl e \<Rightarrow> load_rows acc rows
      | Inr calc \<Rightarrow> load_rows (acc @ [calc]) rows)"

text \<open>The slice \<open>xs[i:]\<close>: a negative \<open>i\<close> counts from the end, and the start is clamped.\<close>

definition slice_from :: "'a list \<Rightarrow> int \<Rightarrow> 'a list" where
  "slice_from xs i =
     (let n = int (length xs);
          start = (if i < 0 then max 0 (n + i) else min i n)
      in drop (nat start) xs)"

definition load_from_csv :: "calculation_history \<Rightarrow> string \<Rightarrow> filesystem \<Rightarrow> (error + unit) \<times> calculation_history" where
  "load_from_csv h filepath fs =
     (case read_csv fs filepath of
        Inl FileNotFoundError \<Rightarrow> (Inl (HistoryError ''History file not found''), h)
      | Inl e \<Rightarrow> (Inl (HistoryError ''Failed to load history from CSV''), h)
      | Inr rows \<Rightarrow>
          let h1 = h\<lparr>hist := []\<rparr>;
              h2 = h1\<lparr>hist := load_rows (hist h1) rows\<rparr>;
              h3 = (if int (length (hist h2)) > max_size h2
                    then h2\<lparr>hist := slice_from (hist h2) (- max_size h2)\<rparr>
                    else h2)
          in (Inr (), h3))"

section \<open>Memento and caretaker (app/calculator\_memento.py)\<close>

text \<open>
  A memento holds a deep copy of a history list. Calculations are values here, so the
  copy made on the way in and the one made by \<open>get_snapshot\<close> are the list itself.
\<close>

datatype CalculatorMemento = CalculatorMemento (get_snapshot: "calculation list")

text \<open>
  Both stacks are Python lists used with \<open>append\<close> and \<open>pop()\<close>: the top of a stack is
  the last element.
\<close>

record caretaker =
  undo_stack :: "CalculatorMemento list"
  redo_stack :: "CalculatorMemento list"

definition new_caretaker :: caretaker where
  "new_caretaker = \<lparr>undo_stack = [], redo_stack = []\<rparr>"

definition save_state :: "caretaker \<Rightarrow> calculation list \<Rightarrow> caretaker" where
  "save_state c h =
     c\<lparr>undo_stack := undo_stack c @ [CalculatorMemento h], redo_stack := []\<rparr>"

definition undo :: "caretaker \<Rightarrow> calculation list \<Rightarrow> (error + calculation list) \<times> caretaker" where
  "undo c current_history =
     (if undo_stack c = [] then (Inl (HistoryError ''Nothing to undo''), c)
      else
        let c1 = c\<lparr>redo_stack := redo_stack c @ [CalculatorMemento current_history]\<rparr>;
            previous_memento = last (undo_stack c1);
            c2 = c1\<lparr>undo_stack := butlast (undo_stack c1)\<rparr>
        in (Inr (get_snapshot previous_memento), c2))"

definition redo :: "caretaker \<Rightarrow> (error + calculation list) \<times> caretaker" where
  "redo c =
     (if redo_stack c = [] then (Inl (HistoryError ''Nothing to redo''), c)
      else
        let next_memento = last (redo_stack c);
            c1 = c\<lparr>redo_stack := butlast (redo_stack c)\<rparr>;
            c2 = c1\<lparr>undo_stack := undo_stack c1 @ [next_memento]\<rparr>
        in (Inr (get_snapshot next_memento), c2))"

definition can_undo :: "caretaker \<Rightarrow> bool" where
  "can_undo c \<longleftrightarrow> length (undo_stack c) > 0"

definition can_redo :: "caretaker \<Rightarrow> bool" where
  "can_redo c \<longleftrightarrow> length (redo_stack c) > 0"

definition clear :: "caretaker \<Rightarrow> caretaker" where
  "clear c = c\<lparr>undo_stack := [], redo_stack := []\<rparr>"

section \<open>Calculator (app/calculator.py)\<close>

text \<open>The settings that \<open>perform_calculation\<close> and the constructor read.\<close>

record config =
  max_history_size :: int
  auto_save :: bool
  precision :: int
  max_input_value :: pyfloat
  history_file :: string

text \<open>
  The two observers. The auto-save observer holds the calculator's own history object, so
  it is given by its path alone and reads the history from the state.
\<close>

datatype observer = LoggingObserver | AutoSaveObserver string

text \<open>A line of the log: the operation name, the operands and the result.\<close>

type_synonym log_line = "string \<times> pyfloat \<times> pyfloat \<times> pyresult option"

text \<open>
  The calculator, together with what its observers write to: \<open>logger\<close> holds the lines
  written through \<open>log_calculation\<close>, \<open>storage\<close> the files. \<open>updates\<close> records every
  call of an observer's \<open>update\<close>, in order.
\<close>

record calculator =
  config :: config
  history :: calculation_history
  caretaker :: caretaker
  observers :: "observer list"
  logger :: "log_line list"
  storage :: filesystem
  updates :: "(observer \<times> calculation) list"

definition register_observer :: "calculator \<Rightarrow> observer \<Rightarrow> calculator" where
  "register_observer s ob = s\<lparr>observers := observers s @ [ob]\<rparr>"

definition new_calculator :: "config \<Rightarrow> filesystem \<Rightarrow> calculator" where
  "new_calculator cfg fs =
     (let s = \<lparr>config = cfg, history = new_history (max_history_size cfg),
               caretaker = new_caretaker, observers = [], logger = [], storage = fs,
               updates = []\<rparr>;
          s1 = register_observer s LoggingObserver
      in if auto_save cfg then register_observer s1 (AutoSaveObserver (history_file cfg)) else s1)"

text \<open>
  \<open>observer.update(calculation)\<close>. The logging observer writes a line; the auto-save
  observer saves a non-empty history and swallows the \<open>HistoryError\<close> of a failed save.
\<close>

fun update :: "observer \<Rightarrow> calculation \<Rightarrow> calculator \<Rightarrow> calculator" where
  "update LoggingObserver c s =
     s\<lparr>logger := logger s @ [(operation_name c, operand_a c, operand_b c, result c)],
       updates := updates s @ [(LoggingObserver, c)]\<rparr>"
| "update (AutoSaveObserver filepath) c s =
     (let s1 = s\<lparr>updates := updates s @ [(AutoSaveObserver filepath, c)]\<rparr>
      in if get_count (history s1) > 0
         then s1\<lparr>storage := snd (save_to_csv (history s1) filepath (storage s1))\<rparr>
         else s1)"

definition notify_observers :: "calculator \<Rightarrow> calculation \<Rightarrow> calculator" where
  "notify_observers s c = foldl (\<lambda>s1 ob. update ob c s1) s (observers s)"

text \<open>
  \<open>perform_calculation\<close>: the result, or the exception that leaves the method, and the
  state after the call.
\<close>

definition perform_calculation ::
  "calculator \<Rightarrow> string \<Rightarrow> pyvalue \<Rightarrow> pyvalue \<Rightarrow> timestamp \<Rightarrow> (error + pyfloat) \<times> calculator" where
  "perform_calculation s name va vb now =
     (case validate_number va ''operand_a'' of
        Inl e \<Rightarrow> (Inl e, s)
      | Inr a \<Rightarrow>
     (case validate_number vb ''operand_b'' of
        Inl e \<Rightarrow> (Inl e, s)
      | Inr b \<Rightarrow>
     (case validate_in_range a (max_input_value (config s)) ''operand_a'' of
        Inl e \<Rightarrow> (Inl e, s)
      | Inr u \<Rightarrow>
     (case validate_in_range b (max_input_value (config s)) ''operand_b'' of
        Inl e \<Rightarrow> (Inl e, s)
      | Inr u \<Rightarrow>
     (let s1 = s\<lparr>caretaker := save_state (caretaker s) (get_history (history s))\<rparr>
      in case create_operation name of
        Inl e \<Rightarrow> (Inl e, s1)
      | Inr op \<Rightarrow>
     (case calculation_execute (new_calculation op a b now) of
        (Inl e, c0) \<Rightarrow> (Inl e, s1)
      | (Inr r, c1) \<Rightarrow>
     (case py_round r (precision (config s1)) of
        Inl e \<Rightarrow> (Inl e, s1)
      | Inr rounded \<Rightarrow>
          let c2 = c1\<lparr>result := Some (Float rounded)\<rparr>;
              s2 = s1\<lparr>history := add_calculation (history s1) c2\<rparr>;
              s3 = notify_observers s2 c2
          in (Inr rounded, s3))))))))"

text \<open>\<open>Calculator.undo\<close> and \<open>Calculator.redo\<close>: the caretaker's answer replaces the list.\<close>

definition calculator_undo :: "calculator \<Rightarrow> (error + unit) \<times> calculator" where
  "calculator_undo s =
     (case undo (caretaker s) (get_history (history s)) of
        (Inl e, c) \<Rightarrow> (Inl e, s)
      | (Inr restored_history, c) \<Rightarrow>
          (Inr (), s\<lparr>caretaker := c, history := (history s)\<lparr>hist := restored_history\<rparr>\<rparr>))"

definition calculator_redo :: "calculator \<Rightarrow> (error + unit) \<times> calculator" where
  "calculator_redo s =
     (case redo (caretaker s) of
        (Inl e, c) \<Rightarrow> (Inl e, s)
      | (Inr restored_history, c) \<Rightarrow>
          (Inr (), s\<lparr>caretaker := c, history := (history s)\<lparr>hist := restored_history\<rparr>\<rparr>))"

section \<open>Sample data\<close>

text \<open>Records, files and a calculator on which the statements below are evaluated.\<close>

definition rec1 :: calculation where
  "rec1 = \<lparr>operation = AddOperation, operand_a = Fin 5, operand_b = Fin 3,
            result = Some (Float (Fin 8)), timestamp = 1\<rparr>"

definition rec2 :: calculation where
  "rec2 = \<lparr>operation = AddOperation, operand_a = Fin 10, operand_b = Fin 5,
            result = Some (Float (Fin 15)), timestamp = 2\<rparr>"

definition rec3 :: calculation where
  "rec3 = \<lparr>operation = IntDivideOperation, operand_a = Fin 7, operand_b = Fin 2,
            result = Some (Float (Fin 3)), timestamp = 3\<rparr>"

definition no_files :: filesystem where
  "no_files = \<lparr>files = Map.empty, unwritable = (\<lambda>p. False)\<rparr>"

definition one_row_file :: filesystem where
  "one_row_file =
     \<lparr>files = [''h.csv'' \<mapsto> Table [written_row False (to_dict rec1)]], unwritable = (\<lambda>p. False)\<rparr>"


text \<open>The default settings of \<open>CalculatorConfig\<close>.\<close>

definition default_config :: config where
  "default_config =
     \<lparr>max_history_size = 100, auto_save = True, precision = 2,
      max_input_value = Fin 1000000, history_file = ''history/calculation_history.csv''\<rparr>"

text \<open>
  A calculator state in which the store holds \<open>rec1\<close> and a second calculation has been
  undone: the redo stack is not empty.
\<close>

definition undone_calculator :: calculator where
  "undone_calculator =
     (new_calculator default_config no_files)
       \<lparr>history := \<lparr>hist = [rec1], max_size = 100\<rparr>,
        caretaker := \<lparr>undo_stack = [CalculatorMemento []],
                      redo_stack = [CalculatorMemento [rec1, rec2]]\<rparr>\<rparr>"

section \<open>Properties of the caretaker\<close>

lemma rec1_neq_rec2: "rec1 \<noteq> rec2"
  by (simp add: rec1_def rec2_def)

text \<open>
  C6. \<open>save_state\<close> empties the redo stack whatever the state of the caretaker: after it
  \<open>can_redo\<close> is false, and in particular so after an undo that succeeded.
\<close>

theorem save_state_clears_redo:
  "\<not> can_redo (save_state c hx) \<and>
   (undo c0 cur = (Inr h, c1) \<longrightarrow> \<not> can_redo (save_state c1 hx))"
  by (simp add: save_state_def can_redo_def)

theorem save_state_clears_redo_witness:
  "undo (save_state new_caretaker [rec1]) [rec1, rec2]
     = (Inr [rec1], \<lparr>undo_stack = [], redo_stack = [CalculatorMemento [rec1, rec2]]\<rparr>)
   \<and> can_redo \<lparr>undo_stack = [], redo_stack = [CalculatorMemento [rec1, rec2]]\<rparr>
   \<and> \<not> can_redo (save_state \<lparr>undo_stack = [], redo_stack = [CalculatorMemento [rec1, rec2]]\<rparr> [rec2])"
  using save_state_clears_redo
    [of "\<lparr>undo_stack = [], redo_stack = [CalculatorMemento [rec1, rec2]]\<rparr>" "[rec2]"
        "save_state new_caretaker [rec1]" "[rec1, rec2]" "[rec1]"
        "\<lparr>undo_stack = [], redo_stack = [CalculatorMemento [rec1, rec2]]\<rparr>"]
  by (simp add: undo_def save_state_def new_caretaker_def can_redo_def)

text \<open>
  C1. The sequence \<open>save_state(H0); save_state(H1); undo(H2); redo()\<close> on a new
  caretaker, with \<open>H0 = []\<close>, \<open>H1 = [rec1]\<close> and \<open>H2 = [rec1, rec2]\<close>: the first undo
  returns \<open>H1\<close> and the redo returns \<open>H2\<close>, but \<open>redo\<close> pushes the state it returns onto
  the undo stack, so the next undo with current history \<open>H2\<close> returns \<open>H2\<close> again and not
  \<open>H1\<close>, and \<open>H1\<close> is then on neither stack.
\<close>

theorem undo_after_redo_returns_current:
  "(let c2 = save_state (save_state new_caretaker []) [rec1];
        (r1, c3) = undo c2 [rec1, rec2];
        (r2, c4) = redo c3;
        (r3, c5) = undo c4 [rec1, rec2]
    in r1 = Inr [rec1] \<and> r2 = Inr [rec1, rec2] \<and> r3 = Inr [rec1, rec2] \<and> r3 \<noteq> Inr [rec1]
       \<and> CalculatorMemento [rec1] \<notin> set (undo_stack c5) \<union> set (redo_stack c5))"
  by (simp add: save_state_def new_caretaker_def undo_def redo_def Let_def rec1_neq_rec2)

section \<open>Properties of the operations\<close>

text \<open>What \<open>RootOperation\<close> does get right: the two guards before the power is taken.\<close>

lemma root_zero_degree:
  "feq b (Fin 0) \<Longrightarrow> execute RootOperation a b = Inl (OperationError ''Cannot calculate 0th root'')"
  by simp

lemma root_even_of_negative:
  assumes "x < 0" and "k \<noteq> 0"
  shows "execute RootOperation (Fin x) (Fin (of_int (2 * k)))
           = Inl (OperationError ''Cannot calculate even root of negative number'')"
  using assms by (simp add: py_mod_def)

text \<open>An overflow of the power is reported as an \<open>OperationError\<close>.\<close>

lemma power_overflow_is_operation_error:
  "execute PowerOperation (Fin 10) (Fin 400) = Inl (OperationError ''Power operation failed'')"
  by (simp add: py_pow_def catch_overflow_value_def DBL_MAX_def Let_def)

text \<open>
  A degree so small that \<open>1 / b\<close> is infinite: the root of a base above 1 is infinite,
  without an exception.
\<close>

lemma root_of_tiny_degree_is_infinite:
  "execute RootOperation (Fin 2) (Fin (1 / 2 ^ 1100)) = Inr (Float PInf)"
  by (simp add: py_truediv_def py_pow_def catch_overflow_value_def finite_or_inf_def DBL_MAX_def
      fgt_def)

text \<open>
  C5. Two outcomes of \<open>PowerOperation.execute\<close> that are neither a float nor an
  \<open>OperationError\<close>: \<open>0.0 ** -1.0\<close> raises \<open>ZeroDivisionError\<close>, which the handler for
  \<open>OverflowError\<close> and \<open>ValueError\<close> lets through, and \<open>(-4.0) ** 0.5\<close>, a fractional
  power of a negative base, returns the complex number \<open>2j\<close> without any exception.
\<close>

theorem power_uncaught_outcomes:
  "execute PowerOperation (Fin 0) (Fin (- 1)) = Inl ZeroDivisionError
   \<and> execute PowerOperation (Fin (- 4)) (Fin (1 / 2)) = Inr (Cplx (2 * \<i>))"
  by (simp add: py_pow_def catch_overflow_value_def DBL_MAX_def Let_def)

text \<open>
  C8. Past its two guards \<open>RootOperation.execute\<close> has the same two outcomes: the root of
  degree \<open>-1\<close> of \<open>0\<close> raises \<open>ZeroDivisionError\<close>, and the cube root of \<open>-8\<close> is returned
  as a complex number, with no exception.
\<close>

theorem root_uncaught_outcomes:
  "execute RootOperation (Fin 0) (Fin (- 1)) = Inl ZeroDivisionError
   \<and> execute RootOperation (Fin (- 8)) (Fin 3) = Inr (Cplx (2 * cis (pi / 3)))"
  by (simp add: py_pow_def py_mod_def py_truediv_def catch_overflow_value_def finite_or_inf_def
      DBL_MAX_def Let_def)

section \<open>Properties of the history store\<close>


lemma slice_from_last:
  "0 < m \<Longrightarrow> m < int (length xs) \<Longrightarrow> int (length (slice_from xs (- m))) = m"
  by (simp add: slice_from_def Let_def)

text \<open>
  What holds of the bound. A new store with a bound that is not negative is within it. In
  a store whose length is at most \<open>max_size\<close>, the length is at most \<open>max_size\<close> after
  an append and after a clear, and after a load when \<open>max_size\<close> is not 0; no operation
  changes the bound. An append below capacity adds the record at the end; an append at
  capacity drops the record at index 0 of the extended list and keeps the others in
  order. With \<open>max_size = 2\<close>, appending \<open>r1\<close>, \<open>r2\<close>, \<open>r3\<close> to an empty store leaves
  \<open>[r2, r3]\<close>.
\<close>

lemma new_history_bounded:
  "0 \<le> n \<Longrightarrow> int (length (hist (new_history n))) \<le> max_size (new_history n)"
  by (simp add: new_history_def)

lemma history_bounded:
  assumes "int (length (hist h)) \<le> max_size h"
  shows "int (length (hist (add_calculation h c))) \<le> max_size (add_calculation h c)
       \<and> max_size (add_calculation h c) = max_size h
       \<and> (int (length (hist h)) < max_size h \<longrightarrow> hist (add_calculation h c) = hist h @ [c])
       \<and> (int (length (hist h)) = max_size h \<longrightarrow> hist (add_calculation h c) = tl (hist h @ [c]))
       \<and> (\<forall>x xs. hist h = x # xs \<and> int (length (hist h)) = max_size h
             \<longrightarrow> hist (add_calculation h c) = xs @ [c])
       \<and> int (length (hist (clear_history h))) \<le> max_size (clear_history h)
       \<and> max_size (clear_history h) = max_size h
       \<and> (max_size h \<noteq> 0 \<longrightarrow>
            int (length (hist (snd (load_from_csv h filepath fs))))
              \<le> max_size (snd (load_from_csv h filepath fs)))
       \<and> max_size (snd (load_from_csv h filepath fs)) = max_size h
       \<and> hist (add_calculation (add_calculation (add_calculation (new_history 2) r1) r2) r3) = [r2, r3]"
proof -
  have m0: "0 \<le> max_size h"
    using assms by linarith
  have a: "int (length (hist (add_calculation h c))) \<le> max_size (add_calculation h c)"
    using assms by (simp add: add_calculation_def Let_def)
  have b: "max_size (add_calculation h c) = max_size h"
    by (simp add: add_calculation_def Let_def)
  have c1: "int (length (hist h)) < max_size h \<longrightarrow> hist (add_calculation h c) = hist h @ [c]"
    by (simp add: add_calculation_def Let_def)
  have c2: "int (length (hist h)) = max_size h \<longrightarrow> hist (add_calculation h c) = tl (hist h @ [c])"
    by (simp add: add_calculation_def Let_def)
  have c3: "\<forall>x xs. hist h = x # xs \<and> int (length (hist h)) = max_size h
             \<longrightarrow> hist (add_calculation h c) = xs @ [c]"
    by (simp add: add_calculation_def Let_def)
  have d: "int (length (hist (clear_history h))) \<le> max_size (clear_history h)"
    using m0 by (simp add: clear_history_def)
  have d': "max_size (clear_history h) = max_size h"
    by (simp add: clear_history_def)
  have e: "max_size h \<noteq> 0 \<longrightarrow>
            int (length (hist (snd (load_from_csv h filepath fs))))
              \<le> max_size (snd (load_from_csv h filepath fs))"
    using assms m0
    by (auto simp: load_from_csv_def Let_def slice_from_last split: sum.splits error.splits)
  have e': "max_size (snd (load_from_csv h filepath fs)) = max_size h"
    by (auto simp: load_from_csv_def Let_def split: sum.splits error.splits)
  have f: "hist (add_calculation (add_calculation (add_calculation (new_history 2) r1) r2) r3) = [r2, r3]"
    by (simp add: add_calculation_def new_history_def Let_def)
  show ?thesis
    using a b c1 c2 c3 d d' e e' f by blast
qed

lemma history_bounded_example:
  "int (length (hist \<lparr>hist = [rec1, rec2], max_size = 2\<rparr>)) \<le> max_size \<lparr>hist = [rec1, rec2], max_size = 2\<rparr>
   \<and> hist (add_calculation \<lparr>hist = [rec1, rec2], max_size = 2\<rparr> rec3) = [rec2, rec3]
   \<and> int (length (hist (snd (load_from_csv \<lparr>hist = [rec1, rec2], max_size = 2\<rparr> ''h.csv'' one_row_file)))) \<le> 2
   \<and> hist (add_calculation (add_calculation (add_calculation (new_history 2) rec1) rec2) rec3)
       = [rec2, rec3]"
proof -
  have bounded: "int (length (hist \<lparr>hist = [rec1, rec2], max_size = 2\<rparr>))
                   \<le> max_size \<lparr>hist = [rec1, rec2], max_size = 2\<rparr>"
    by simp
  show ?thesis
    using bounded
      history_bounded [OF bounded, of rec3 "''h.csv''" one_row_file rec1 rec2 rec3]
    by simp
qed

text \<open>
  C3. The length of the store is at most \<open>max_size\<close> after an append and after a clear,
  but not after every operation: a store with \<open>max_size = 0\<close> that loads a file with
  one valid row holds that row afterwards, and the length 1 exceeds the bound. The load
  enforces the bound with the slice \<open>self._history[-self._max_size:]\<close>, which for
  \<open>max_size = 0\<close> is the whole list.
\<close>

theorem load_zero_bound_exceeds_bound:
  "(let (r, h') = load_from_csv (new_history 0) ''h.csv'' one_row_file
    in r = Inr () \<and> hist h' = [rec1] \<and> max_size h' = 0
       \<and> \<not> int (length (hist h')) \<le> max_size h')"
  by (simp add: load_from_csv_def read_csv_def one_row_file_def new_history_def written_row_def
      to_dict_def rec1_def operation_name_def lower_def lower_char_def load_row_def
      create_operation_def operations_def slice_from_def Let_def)

text \<open>
  C7. Saving an empty history fails with \<open>HistoryError("No history to save")\<close> and leaves
  the files as they were, so a load that follows sees what it would have seen before.
\<close>

theorem save_empty_history_fails:
  assumes "hist h = []"
  shows "save_to_csv h filepath fs = (Inl (HistoryError ''No history to save''), fs)
         \<and> load_from_csv h' filepath (snd (save_to_csv h filepath fs)) = load_from_csv h' filepath fs"
  using assms by (simp add: save_to_csv_def)

theorem save_empty_history_fails_witness:
  "hist (new_history 100) = []
   \<and> save_to_csv (new_history 100) ''h.csv'' one_row_file
       = (Inl (HistoryError ''No history to save''), one_row_file)
   \<and> files (snd (save_to_csv (new_history 100) ''h.csv'' one_row_file)) ''h.csv''
       = Some (Table [written_row False (to_dict rec1)])"
proof -
  have empty: "hist (new_history 100) = []"
    by (simp add: new_history_def)
  show ?thesis
    using empty save_empty_history_fails [OF empty, of "''h.csv''" one_row_file "new_history 100"]
    by (simp add: one_row_file_def)
qed



text \<open>
  C4. A history holding one integer division, with its result set, is saved and loaded
  again: both calls succeed, but \<open>to_dict\<close> writes the name \<open>intdivide\<close> (the class name
  without \<open>Operation\<close>, in lower case), the factory knows the operation as \<open>int_divide\<close>,
  and the row is skipped. One record was saved and none is loaded.
\<close>

theorem int_divide_lost_in_round_trip:
  "(let h = \<lparr>hist = [rec3], max_size = 100\<rparr>;
        (r, fs1) = save_to_csv h ''history.csv'' no_files;
        (r', h') = load_from_csv (new_history 100) ''history.csv'' fs1
    in r = Inr () \<and> r' = Inr () \<and> hist h' = [] \<and> get_count h = 1 \<and> get_count h' = 0
       \<and> files fs1 ''history.csv''
          = Some (Table [\<lparr>row_operation = Some ''intdivide'', row_operand_a = Some (Fin 7),
                          row_operand_b = Some (Fin 2), row_result = Some (Fin 3),
                          row_timestamp = Some 3\<rparr>])
       \<and> create_operation ''intdivide'' = Inl (OperationError ''Unknown operation''))"
  by (simp add: save_to_csv_def to_csv_def no_files_def rec3_def to_dict_def written_row_def
      is_complex_result_def operation_name_def lower_def lower_char_def load_from_csv_def
      read_csv_def new_history_def load_row_def create_operation_def operations_def get_count_def
      Let_def)

text \<open>
  For the other eight operations the names agree, and saving then loading gives the
  records back, in order.
\<close>

lemma load_written_row:
  assumes "operation c \<noteq> IntDivideOperation" and "operation c \<noteq> AbsDiffOperation"
      and "result c = Some (Float x)"
  shows "load_row (written_row False (to_dict c)) = Inr c"
  using assms
  by (cases "operation c"; cases x)
     (simp_all add: load_row_def written_row_def to_dict_def operation_name_def lower_def
        lower_char_def create_operation_def operations_def)

lemma load_rows_written:
  assumes "\<forall>c \<in> set cs. operation c \<noteq> IntDivideOperation \<and> operation c \<noteq> AbsDiffOperation
             \<and> (\<exists>x. result c = Some (Float x))"
  shows "load_rows acc (map (written_row False \<circ> to_dict) cs) = acc @ cs"
  using assms
  by (induction cs arbitrary: acc) (auto simp: load_written_row)

lemma no_complex_result:
  assumes "\<forall>c \<in> set cs. \<exists>x. result c = Some (Float x)"
  shows "\<not> list_ex is_complex_result (map to_dict cs)"
  using assms
  by (induction cs) (auto simp: is_complex_result_def to_dict_def)

lemma round_trip_other_operations:
  assumes "hist h \<noteq> []"
      and "\<forall>c \<in> set (hist h). operation c \<noteq> IntDivideOperation \<and> operation c \<noteq> AbsDiffOperation
             \<and> (\<exists>x. result c = Some (Float x))"
      and "\<not> unwritable fs filepath"
      and "int (length (hist h)) \<le> max_size h'"
  shows "fst (save_to_csv h filepath fs) = Inr ()
         \<and> load_from_csv h' filepath (snd (save_to_csv h filepath fs)) = (Inr (), h'\<lparr>hist := hist h\<rparr>)"
proof -
  have "\<not> list_ex is_complex_result (map to_dict (hist h))"
    using assms(2) by (intro no_complex_result) blast
  then show ?thesis
    using assms
    by (simp add: save_to_csv_def to_csv_def load_from_csv_def read_csv_def load_rows_written Let_def)
qed

text \<open>
  One complex result in the history makes the whole result column unreadable: the file is
  written, and the load that follows skips every row.
\<close>

lemma complex_result_spoils_the_file:
  "(let h = \<lparr>hist = [rec1, rec1\<lparr>result := Some (Cplx \<i>)\<rparr>], max_size = 100\<rparr>;
        (r, fs1) = save_to_csv h ''history.csv'' no_files;
        (r', h') = load_from_csv (new_history 100) ''history.csv'' fs1
    in r = Inr () \<and> r' = Inr () \<and> hist h' = [])"
  by (simp add: save_to_csv_def to_csv_def no_files_def rec1_def to_dict_def written_row_def
      is_complex_result_def operation_name_def lower_def lower_char_def load_from_csv_def
      read_csv_def new_history_def load_row_def create_operation_def operations_def Let_def)

section \<open>Properties of the calculator\<close>

text \<open>
  The first calculation of a new calculator with the default settings, and then
  \<open>undo\<close>, \<open>redo\<close>, \<open>undo\<close>: the second undo succeeds and leaves the history as it was.
\<close>

lemma first_add:
  "perform_calculation (new_calculator default_config no_files) ''add'' (Number (Fin 5)) (Number (Fin 3)) 1
   = (Inr (Fin 8),
      (new_calculator default_config no_files)
        \<lparr>history := \<lparr>hist = [rec1], max_size = 100\<rparr>,
         caretaker := \<lparr>undo_stack = [CalculatorMemento []], redo_stack = []\<rparr>,
         logger := [(''add'', Fin 5, Fin 3, Some (Float (Fin 8)))],
         storage := \<lparr>files = [''history/calculation_history.csv'' \<mapsto> Table [written_row False (to_dict rec1)]],
                      unwritable = (\<lambda>p. False)\<rparr>,
         updates := [(LoggingObserver, rec1),
                     (AutoSaveObserver ''history/calculation_history.csv'', rec1)]\<rparr>)"
  by (simp add: perform_calculation_def new_calculator_def default_config_def
      register_observer_def validate_number_def validate_in_range_def fgt_def save_state_def
      get_history_def create_operation_def operations_def lower_def lower_char_def
      calculation_execute_def new_calculation_def Let_def new_history_def new_caretaker_def
      finite_or_inf_def DBL_MAX_def round_half_even_def add_calculation_def notify_observers_def
      operation_name_def rec1_def get_count_def save_to_csv_def to_csv_def is_complex_result_def
      to_dict_def no_files_def)

lemma calculator_undo_after_redo_changes_nothing:
  "(let (r0, s1) = perform_calculation (new_calculator default_config no_files) ''add''
                     (Number (Fin 5)) (Number (Fin 3)) 1;
        (r1, s2) = calculator_undo s1;
        (r2, s3) = calculator_redo s2;
        (r3, s4) = calculator_undo s3
    in r0 = Inr (Fin 8) \<and> hist (history s1) = [rec1]
       \<and> r1 = Inr () \<and> hist (history s2) = []
       \<and> r2 = Inr () \<and> hist (history s3) = [rec1]
       \<and> r3 = Inr () \<and> hist (history s4) = [rec1])"
  unfolding first_add
  by (simp add: calculator_undo_def calculator_redo_def undo_def redo_def get_history_def Let_def)

text \<open>
  C2. Every failure of a step of \<open>perform_calculation\<close> reaches the caller as the
  exception of that step: the validation of the first operand, then of the second, the
  range check of the first, then of the second, and with valid operands the factory, the
  operation, and the rounding of its result. The first four leave the calculator as it
  was; the last three leave it with the state saved by the caretaker and nothing else
  changed. Conversely, whenever the call raises, the exception is that of one of these
  steps, the history store is as before, and no observer was called: the record of
  updates, the log and the files are unchanged.
\<close>

theorem perform_calculation_error_frame:
  "(validate_number va ''operand_a'' = Inl e \<longrightarrow>
      perform_calculation s name va vb now = (Inl e, s))
   \<and> (validate_number va ''operand_a'' = Inr a \<and> validate_number vb ''operand_b'' = Inl e \<longrightarrow>
      perform_calculation s name va vb now = (Inl e, s))
   \<and> (validate_number va ''operand_a'' = Inr a \<and> validate_number vb ''operand_b'' = Inr b
      \<and> validate_in_range a (max_input_value (config s)) ''operand_a'' = Inl e \<longrightarrow>
      perform_calculation s name va vb now = (Inl e, s))
   \<and> (validate_number va ''operand_a'' = Inr a \<and> validate_number vb ''operand_b'' = Inr b
      \<and> validate_in_range a (max_input_value (config s)) ''operand_a'' = Inr ()
      \<and> validate_in_range b (max_input_value (config s)) ''operand_b'' = Inl e \<longrightarrow>
      perform_calculation s name va vb now = (Inl e, s))
   \<and> (validate_number va ''operand_a'' = Inr a \<and> validate_number vb ''operand_b'' = Inr b
      \<and> validate_in_range a (max_input_value (config s)) ''operand_a'' = Inr ()
      \<and> validate_in_range b (max_input_value (config s)) ''operand_b'' = Inr ()
      \<and> create_operation name = Inl e \<longrightarrow>
      perform_calculation s name va vb now
        = (Inl e, s\<lparr>caretaker := save_state (caretaker s) (get_history (history s))\<rparr>))
   \<and> (validate_number va ''operand_a'' = Inr a \<and> validate_number vb ''operand_b'' = Inr b
      \<and> validate_in_range a (max_input_value (config s)) ''operand_a'' = Inr ()
      \<and> validate_in_range b (max_input_value (config s)) ''operand_b'' = Inr ()
      \<and> create_operation name = Inr op \<and> execute op a b = Inl e \<longrightarrow>
      perform_calculation s name va vb now
        = (Inl e, s\<lparr>caretaker := save_state (caretaker s) (get_history (history s))\<rparr>))
   \<and> (validate_number va ''operand_a'' = Inr a \<and> validate_number vb ''operand_b'' = Inr b
      \<and> validate_in_range a (max_input_value (config s)) ''operand_a'' = Inr ()
      \<and> validate_in_range b (max_input_value (config s)) ''operand_b'' = Inr ()
      \<and> create_operation name = Inr op \<and> execute op a b = Inr r
      \<and> py_round r (precision (config s)) = Inl e \<longrightarrow>
      perform_calculation s name va vb now
        = (Inl e, s\<lparr>caretaker := save_state (caretaker s) (get_history (history s))\<rparr>))
   \<and> (perform_calculation s name va vb now = (Inl e, s') \<longrightarrow>
        history s' = history s \<and> updates s' = updates s \<and> logger s' = logger s
        \<and> storage s' = storage s \<and> observers s' = observers s \<and> config s' = config s
        \<and> (validate_number va ''operand_a'' = Inl e
           \<or> validate_number vb ''operand_b'' = Inl e
           \<or> (\<exists>x. validate_number va ''operand_a'' = Inr x
                 \<and> validate_in_range x (max_input_value (config s)) ''operand_a'' = Inl e)
           \<or> (\<exists>y. validate_number vb ''operand_b'' = Inr y
                 \<and> validate_in_range y (max_input_value (config s)) ''operand_b'' = Inl e)
           \<or> create_operation name = Inl e
           \<or> (\<exists>f x y. create_operation name = Inr f
                 \<and> validate_number va ''operand_a'' = Inr x
                 \<and> validate_number vb ''operand_b'' = Inr y
                 \<and> execute f x y = Inl e)
           \<or> (\<exists>f x y z. create_operation name = Inr f
                 \<and> validate_number va ''operand_a'' = Inr x
                 \<and> validate_number vb ''operand_b'' = Inr y
                 \<and> execute f x y = Inr z
                 \<and> py_round z (precision (config s)) = Inl e)))"
proof -
  have forward:
    "validate_number va ''operand_a'' = Inl e \<longrightarrow>
       perform_calculation s name va vb now = (Inl e, s)"
    "validate_number va ''operand_a'' = Inr a \<and> validate_number vb ''operand_b'' = Inl e \<longrightarrow>
       perform_calculation s name va vb now = (Inl e, s)"
    "validate_number va ''operand_a'' = Inr a \<and> validate_number vb ''operand_b'' = Inr b
       \<and> validate_in_range a (max_input_value (config s)) ''operand_a'' = Inl e \<longrightarrow>
       perform_calculation s name va vb now = (Inl e, s)"
    "validate_number va ''operand_a'' = Inr a \<and> validate_number vb ''operand_b'' = Inr b
       \<and> validate_in_range a (max_input_value (config s)) ''operand_a'' = Inr ()
       \<and> validate_in_range b (max_input_value (config s)) ''operand_b'' = Inl e \<longrightarrow>
       perform_calculation s name va vb now = (Inl e, s)"
    "validate_number va ''operand_a'' = Inr a \<and> validate_number vb ''operand_b'' = Inr b
       \<and> validate_in_range a (max_input_value (config s)) ''operand_a'' = Inr ()
       \<and> validate_in_range b (max_input_value (config s)) ''operand_b'' = Inr ()
       \<and> create_operation name = Inl e \<longrightarrow>
       perform_calculation s name va vb now
         = (Inl e, s\<lparr>caretaker := save_state (caretaker s) (get_history (history s))\<rparr>)"
    "validate_number va ''operand_a'' = Inr a \<and> validate_number vb ''operand_b'' = Inr b
       \<and> validate_in_range a (max_input_value (config s)) ''operand_a'' = Inr ()
       \<and> validate_in_range b (max_input_value (config s)) ''operand_b'' = Inr ()
       \<and> create_operation name = Inr op \<and> execute op a b = Inl e \<longrightarrow>
       perform_calculation s name va vb now
         = (Inl e, s\<lparr>caretaker := save_state (caretaker s) (get_history (history s))\<rparr>)"
    "validate_number va ''operand_a'' = Inr a \<and> validate_number vb ''operand_b'' = Inr b
       \<and> validate_in_range a (max_input_value (config s)) ''operand_a'' = Inr ()
       \<and> validate_in_range b (max_input_value (config s)) ''operand_b'' = Inr ()
       \<and> create_operation name = Inr op \<and> execute op a b = Inr r
       \<and> py_round r (precision (config s)) = Inl e \<longrightarrow>
       perform_calculation s name va vb now
         = (Inl e, s\<lparr>caretaker := save_state (caretaker s) (get_history (history s))\<rparr>)"
    by (simp_all add: perform_calculation_def Let_def calculation_execute_def new_calculation_def)
  have backward:
    "perform_calculation s name va vb now = (Inl e, s') \<longrightarrow>
        history s' = history s \<and> updates s' = updates s \<and> logger s' = logger s
        \<and> storage s' = storage s \<and> observers s' = observers s \<and> config s' = config s
        \<and> (validate_number va ''operand_a'' = Inl e
           \<or> validate_number vb ''operand_b'' = Inl e
           \<or> (\<exists>x. validate_number va ''operand_a'' = Inr x
                 \<and> validate_in_range x (max_input_value (config s)) ''operand_a'' = Inl e)
           \<or> (\<exists>y. validate_number vb ''operand_b'' = Inr y
                 \<and> validate_in_range y (max_input_value (config s)) ''operand_b'' = Inl e)
           \<or> create_operation name = Inl e
           \<or> (\<exists>f x y. create_operation name = Inr f
                 \<and> validate_number va ''operand_a'' = Inr x
                 \<and> validate_number vb ''operand_b'' = Inr y
                 \<and> execute f x y = Inl e)
           \<or> (\<exists>f x y z. create_operation name = Inr f
                 \<and> validate_number va ''operand_a'' = Inr x
                 \<and> validate_number vb ''operand_b'' = Inr y
                 \<and> execute f x y = Inr z
                 \<and> py_round z (precision (config s)) = Inl e))"
    by (auto simp: perform_calculation_def Let_def calculation_execute_def new_calculation_def
        split: sum.splits prod.splits)
  show ?thesis
    using forward backward by blast
qed

text \<open>
  An int too large for a float: the \<open>OverflowError\<close> of \<open>float()\<close> leaves the method, and
  the calculator is as it was.
\<close>

lemma big_int_operand_overflows:
  "perform_calculation s name (BigInt n) vb now = (Inl OverflowError, s)"
  by (simp add: perform_calculation_def validate_number_def)

text \<open>Calls that fail at each of the steps, on the sample calculator.\<close>

lemma sample_settings:
  "max_input_value (config undone_calculator) = Fin 1000000"
  "precision (config undone_calculator) = 2"
  "history undone_calculator = \<lparr>hist = [rec1], max_size = 100\<rparr>"
  "caretaker undone_calculator
     = \<lparr>undo_stack = [CalculatorMemento []], redo_stack = [CalculatorMemento [rec1, rec2]]\<rparr>"
  "updates undone_calculator = []"
  by (simp_all add: undone_calculator_def new_calculator_def default_config_def
      register_observer_def Let_def)

lemma divide_by_zero_on_undone_calculator:
  "perform_calculation undone_calculator ''divide'' (Number (Fin 10)) (Number (Fin 0)) 7
     = (Inl (OperationError ''Cannot divide by zero''),
        undone_calculator\<lparr>caretaker :=
          \<lparr>undo_stack = [CalculatorMemento [], CalculatorMemento [rec1]], redo_stack = []\<rparr>\<rparr>)"
  by (simp add: perform_calculation_def sample_settings validate_number_def validate_in_range_def
      fgt_def save_state_def get_history_def create_operation_def operations_def lower_def
      lower_char_def calculation_execute_def new_calculation_def Let_def)

theorem perform_calculation_error_frame_witness:
  "perform_calculation undone_calculator ''add'' (Text ''abc'') (Number (Fin 3)) 7
     = (Inl (ValidationError ''operand_a must be a number''), undone_calculator)
   \<and> perform_calculation undone_calculator ''add'' (Number (Fin 3)) NoneValue 7
     = (Inl (ValidationError ''operand_b must be a number''), undone_calculator)
   \<and> perform_calculation undone_calculator ''add'' (Number (Fin 2000000)) (Number (Fin 3)) 7
     = (Inl (ValidationError ''operand_a exceeds maximum allowed value''), undone_calculator)
   \<and> perform_calculation undone_calculator ''add'' (Number (Fin 3)) (Number (Fin (- 2000000))) 7
     = (Inl (ValidationError ''operand_b exceeds maximum allowed value''), undone_calculator)
   \<and> perform_calculation undone_calculator ''cube'' (Number (Fin 2)) (Number (Fin 3)) 7
     = (Inl (OperationError ''Unknown operation''),
        undone_calculator\<lparr>caretaker :=
          \<lparr>undo_stack = [CalculatorMemento [], CalculatorMemento [rec1]], redo_stack = []\<rparr>\<rparr>)
   \<and> perform_calculation undone_calculator ''divide'' (Number (Fin 10)) (Number (Fin 0)) 7
     = (Inl (OperationError ''Cannot divide by zero''),
        undone_calculator\<lparr>caretaker :=
          \<lparr>undo_stack = [CalculatorMemento [], CalculatorMemento [rec1]], redo_stack = []\<rparr>\<rparr>)
   \<and> perform_calculation undone_calculator ''power'' (Number (Fin (- 4))) (Number (Fin (1 / 2))) 7
     = (Inl TypeError,
        undone_calculator\<lparr>caretaker :=
          \<lparr>undo_stack = [CalculatorMemento [], CalculatorMemento [rec1]], redo_stack = []\<rparr>\<rparr>)
   \<and> hist (history (snd (perform_calculation undone_calculator ''divide''
                           (Number (Fin 10)) (Number (Fin 0)) 7))) = [rec1]
   \<and> updates (snd (perform_calculation undone_calculator ''divide''
                           (Number (Fin 10)) (Number (Fin 0)) 7)) = []"
proof -
  have saved: "save_state (caretaker undone_calculator) (get_history (history undone_calculator))
                 = \<lparr>undo_stack = [CalculatorMemento [], CalculatorMemento [rec1]], redo_stack = []\<rparr>"
    by (simp add: sample_settings save_state_def get_history_def)
  have va: "validate_number (Text ''abc'') ''operand_a''
              = Inl (ValidationError ''operand_a must be a number'')"
    by (simp add: validate_number_def)
  have vb: "validate_number (Number (Fin 3)) ''operand_a'' = Inr (Fin 3)
            \<and> validate_number NoneValue ''operand_b''
              = Inl (ValidationError ''operand_b must be a number'')"
    by (simp add: validate_number_def)
  have ra: "validate_number (Number (Fin 2000000)) ''operand_a'' = Inr (Fin 2000000)
            \<and> validate_number (Number (Fin 3)) ''operand_b'' = Inr (Fin 3)
            \<and> validate_in_range (Fin 2000000) (max_input_value (config undone_calculator)) ''operand_a''
              = Inl (ValidationError ''operand_a exceeds maximum allowed value'')"
    by (simp add: validate_number_def validate_in_range_def fgt_def sample_settings)
  have rb: "validate_number (Number (Fin 3)) ''operand_a'' = Inr (Fin 3)
            \<and> validate_number (Number (Fin (- 2000000))) ''operand_b'' = Inr (Fin (- 2000000))
            \<and> validate_in_range (Fin 3) (max_input_value (config undone_calculator)) ''operand_a'' = Inr ()
            \<and> validate_in_range (Fin (- 2000000)) (max_input_value (config undone_calculator)) ''operand_b''
              = Inl (ValidationError ''operand_b exceeds maximum allowed value'')"
    by (simp add: validate_number_def validate_in_range_def fgt_def sample_settings)
  have unknown: "validate_number (Number (Fin 2)) ''operand_a'' = Inr (Fin 2)
            \<and> validate_number (Number (Fin 3)) ''operand_b'' = Inr (Fin 3)
            \<and> validate_in_range (Fin 2) (max_input_value (config undone_calculator)) ''operand_a'' = Inr ()
            \<and> validate_in_range (Fin 3) (max_input_value (config undone_calculator)) ''operand_b'' = Inr ()
            \<and> create_operation ''cube'' = Inl (OperationError ''Unknown operation'')"
    by (simp add: validate_number_def validate_in_range_def fgt_def sample_settings
        create_operation_def operations_def lower_def lower_char_def)
  have failing: "validate_number (Number (Fin 10)) ''operand_a'' = Inr (Fin 10)
            \<and> validate_number (Number (Fin 0)) ''operand_b'' = Inr (Fin 0)
            \<and> validate_in_range (Fin 10) (max_input_value (config undone_calculator)) ''operand_a'' = Inr ()
            \<and> validate_in_range (Fin 0) (max_input_value (config undone_calculator)) ''operand_b'' = Inr ()
            \<and> create_operation ''divide'' = Inr DivideOperation
            \<and> execute DivideOperation (Fin 10) (Fin 0) = Inl (OperationError ''Cannot divide by zero'')"
    by (simp add: validate_number_def validate_in_range_def fgt_def sample_settings
        create_operation_def operations_def lower_def lower_char_def)
  have rounding: "validate_number (Number (Fin (- 4))) ''operand_a'' = Inr (Fin (- 4))
            \<and> validate_number (Number (Fin (1 / 2))) ''operand_b'' = Inr (Fin (1 / 2))
            \<and> validate_in_range (Fin (- 4)) (max_input_value (config undone_calculator)) ''operand_a'' = Inr ()
            \<and> validate_in_range (Fin (1 / 2)) (max_input_value (config undone_calculator)) ''operand_b'' = Inr ()
            \<and> create_operation ''power'' = Inr PowerOperation
            \<and> execute PowerOperation (Fin (- 4)) (Fin (1 / 2)) = Inr (Cplx (2 * \<i>))
            \<and> py_round (Cplx (2 * \<i>)) (precision (config undone_calculator)) = Inl TypeError"
    by (simp add: validate_number_def validate_in_range_def fgt_def sample_settings
        create_operation_def operations_def lower_def lower_char_def py_pow_def
        catch_overflow_value_def DBL_MAX_def Let_def)
  note t = perform_calculation_error_frame [where s = undone_calculator and now = 7]
  have 1: "perform_calculation undone_calculator ''add'' (Text ''abc'') (Number (Fin 3)) 7
             = (Inl (ValidationError ''operand_a must be a number''), undone_calculator)"
    using va t [where va = "Text ''abc''" and e = "ValidationError ''operand_a must be a number''"]
    by blast
  have 2: "perform_calculation undone_calculator ''add'' (Number (Fin 3)) NoneValue 7
             = (Inl (ValidationError ''operand_b must be a number''), undone_calculator)"
    using vb t [where va = "Number (Fin 3)" and vb = NoneValue and a = "Fin 3"
                  and e = "ValidationError ''operand_b must be a number''"]
    by blast
  have 3: "perform_calculation undone_calculator ''add'' (Number (Fin 2000000)) (Number (Fin 3)) 7
             = (Inl (ValidationError ''operand_a exceeds maximum allowed value''), undone_calculator)"
    using ra t [where va = "Number (Fin 2000000)" and vb = "Number (Fin 3)" and a = "Fin 2000000"
                  and b = "Fin 3" and e = "ValidationError ''operand_a exceeds maximum allowed value''"]
    by blast
  have 4: "perform_calculation undone_calculator ''add'' (Number (Fin 3)) (Number (Fin (- 2000000))) 7
             = (Inl (ValidationError ''operand_b exceeds maximum allowed value''), undone_calculator)"
    using rb t [where va = "Number (Fin 3)" and vb = "Number (Fin (- 2000000))" and a = "Fin 3"
                  and b = "Fin (- 2000000)"
                  and e = "ValidationError ''operand_b exceeds maximum allowed value''"]
    by blast
  have 5: "perform_calculation undone_calculator ''cube'' (Number (Fin 2)) (Number (Fin 3)) 7
             = (Inl (OperationError ''Unknown operation''),
                undone_calculator\<lparr>caretaker :=
                  \<lparr>undo_stack = [CalculatorMemento [], CalculatorMemento [rec1]], redo_stack = []\<rparr>\<rparr>)"
    using unknown t [where name = "''cube''" and va = "Number (Fin 2)" and vb = "Number (Fin 3)"
                  and a = "Fin 2" and b = "Fin 3" and e = "OperationError ''Unknown operation''"]
    unfolding saved by blast
  have 6: "perform_calculation undone_calculator ''divide'' (Number (Fin 10)) (Number (Fin 0)) 7
             = (Inl (OperationError ''Cannot divide by zero''),
                undone_calculator\<lparr>caretaker :=
                  \<lparr>undo_stack = [CalculatorMemento [], CalculatorMemento [rec1]], redo_stack = []\<rparr>\<rparr>)"
    using failing t [where name = "''divide''" and va = "Number (Fin 10)" and vb = "Number (Fin 0)"
                  and a = "Fin 10" and b = "Fin 0" and op = DivideOperation
                  and e = "OperationError ''Cannot divide by zero''"]
    unfolding saved by blast
  have 7: "perform_calculation undone_calculator ''power'' (Number (Fin (- 4))) (Number (Fin (1 / 2))) 7
             = (Inl TypeError,
                undone_calculator\<lparr>caretaker :=
                  \<lparr>undo_stack = [CalculatorMemento [], CalculatorMemento [rec1]], redo_stack = []\<rparr>\<rparr>)"
    using rounding t [where name = "''power''" and va = "Number (Fin (- 4))"
                  and vb = "Number (Fin (1 / 2))" and a = "Fin (- 4)" and b = "Fin (1 / 2)"
                  and op = PowerOperation and r = "Cplx (2 * \<i>)" and e = TypeError]
    unfolding saved by blast
  have 8: "hist (history (snd (perform_calculation undone_calculator ''divide''
                           (Number (Fin 10)) (Number (Fin 0)) 7))) = [rec1]
           \<and> updates (snd (perform_calculation undone_calculator ''divide''
                           (Number (Fin 10)) (Number (Fin 0)) 7)) = []"
    using 6 t [where name = "''divide''" and va = "Number (Fin 10)" and vb = "Number (Fin 0)"
                 and e = "OperationError ''Cannot divide by zero''"
                 and s' = "undone_calculator\<lparr>caretaker :=
                  \<lparr>undo_stack = [CalculatorMemento [], CalculatorMemento [rec1]], redo_stack = []\<rparr>\<rparr>"]
    by (simp add: sample_settings)
  show ?thesis
    using 1 2 3 4 5 6 7 8 by blast
qed

text \<open>
  C10. When both operands pass validation and the call then fails, the caretaker has
  been given the history as it was before the call: one memento more on the undo stack,
  an empty redo stack, so \<open>can_redo\<close> is false, while the history store is unchanged.
\<close>

theorem failed_calculation_saves_state:
  assumes "validate_number va ''operand_a'' = Inr a"
      and "validate_number vb ''operand_b'' = Inr b"
      and "validate_in_range a (max_input_value (config s)) ''operand_a'' = Inr ()"
      and "validate_in_range b (max_input_value (config s)) ''operand_b'' = Inr ()"
      and "perform_calculation s name va vb now = (Inl e, s')"
  shows "caretaker s' =
           (caretaker s)\<lparr>undo_stack := undo_stack (caretaker s) @ [CalculatorMemento (hist (history s))],
                         redo_stack := []\<rparr>
         \<and> \<not> can_redo (caretaker s') \<and> history s' = history s"
  using assms
  by (auto simp: perform_calculation_def Let_def save_state_def get_history_def can_redo_def
      split: sum.splits prod.splits)

theorem failed_calculation_saves_state_witness:
  "can_redo (caretaker undone_calculator)
   \<and> perform_calculation undone_calculator ''divide'' (Number (Fin 10)) (Number (Fin 0)) 7
     = (Inl (OperationError ''Cannot divide by zero''),
        undone_calculator\<lparr>caretaker :=
          \<lparr>undo_stack = [CalculatorMemento [], CalculatorMemento [rec1]], redo_stack = []\<rparr>\<rparr>)
   \<and> \<not> can_redo (caretaker (snd (perform_calculation undone_calculator ''divide''
                                    (Number (Fin 10)) (Number (Fin 0)) 7)))
   \<and> hist (history (snd (perform_calculation undone_calculator ''divide''
                           (Number (Fin 10)) (Number (Fin 0)) 7))) = [rec1]"
proof -
  have va: "validate_number (Number (Fin 10)) ''operand_a'' = Inr (Fin 10)"
    by (simp add: validate_number_def)
  have vb: "validate_number (Number (Fin 0)) ''operand_b'' = Inr (Fin 0)"
    by (simp add: validate_number_def)
  have ra: "validate_in_range (Fin 10) (max_input_value (config undone_calculator)) ''operand_a'' = Inr ()"
    by (simp add: validate_in_range_def fgt_def sample_settings)
  have rb: "validate_in_range (Fin 0) (max_input_value (config undone_calculator)) ''operand_b'' = Inr ()"
    by (simp add: validate_in_range_def fgt_def sample_settings)
  show ?thesis
    using divide_by_zero_on_undone_calculator
      failed_calculation_saves_state [OF va vb ra rb divide_by_zero_on_undone_calculator]
    by (simp add: sample_settings can_redo_def)
qed

end
